theory Spec2Isabelle
  imports Main
begin

section \<open>Appointment-slot availability engine of the hospital administration application\<close>

text \<open>
  The development embeds the slot generator \<open>generate_time_slots\<close> and the request handlers
  \<open>get_doctor_slots\<close>, \<open>set_doctor_slots\<close>, \<open>schedule_appointment\<close>, \<open>delete_appointment\<close>
  and \<open>update_appointment_status\<close> of \<open>app.py\<close>, together with the two tables they touch.

  Conventions.
  \<^item> Strings are lists of characters with code points below 256.
  \<^item> A \<open>datetime\<close> produced by \<open>strptime(s, '%H:%M')\<close> lies on 1900-01-01; it is represented by
    the integer number of minutes since 1900-01-01 00:00. Adding \<open>timedelta(minutes=n)\<close> is
    integer addition; the calendar limits of \<open>datetime\<close> (years 1 to 9999) are not represented,
    so the model follows the code as long as the cursor stays inside that range.
  \<^item> An exception raised by the code is the value \<open>Inl e\<close>; a call that never returns is \<open>None\<close>.
\<close>

subsection \<open>Parsing and printing wall-clock times\<close>

datatype py_error = ValueError

definition is_digit :: "char \<Rightarrow> bool" where
  "is_digit c = (48 \<le> (of_char c :: nat) \<and> (of_char c :: nat) \<le> 57)"

definition digit_val :: "char \<Rightarrow> int" where
  "digit_val c = int (of_char c) - 48"

text \<open>
  \<open>strptime\<close> turns the directive \<open>%H\<close> into the pattern \<open>2[0-3]|[0-1]\d|\d\<close> and \<open>%M\<close> into
  \<open>[0-5]\d|\d\<close>, tries the alternatives from left to right, and raises \<open>ValueError\<close> when the
  pattern does not match a prefix or when input remains after the match. Each matcher returns
  the value read and the rest of the input. After a two-character alternative the next
  pattern character is a separator, so falling back to a shorter alternative cannot succeed.
\<close>

fun match_H :: "string \<Rightarrow> (int \<times> string) option" where
  "match_H (a # b # rest) =
     (if a = CHR ''2'' \<and> b \<in> set ''0123'' then Some (20 + digit_val b, rest)
      else if a \<in> set ''01'' \<and> is_digit b then Some (10 * digit_val a + digit_val b, rest)
      else if is_digit a then Some (digit_val a, b # rest)
      else None)"
| "match_H [a] = (if is_digit a then Some (digit_val a, []) else None)"
| "match_H [] = None"

fun match_M :: "string \<Rightarrow> (int \<times> string) option" where
  "match_M (a # b # rest) =
     (if a \<in> set ''012345'' \<and> is_digit b then Some (10 * digit_val a + digit_val b, rest)
      else if is_digit a then Some (digit_val a, b # rest)
      else None)"
| "match_M [a] = (if is_digit a then Some (digit_val a, []) else None)"
| "match_M [] = None"

text \<open>\<open>datetime.strptime(s, '%H:%M')\<close>, as minutes since 1900-01-01 00:00.\<close>

definition strptime_HM :: "string \<Rightarrow> py_error + int" where
  "strptime_HM s =
     (case match_H s of
        None \<Rightarrow> Inl ValueError
      | Some (h, r1) \<Rightarrow>
          (case r1 of
             [] \<Rightarrow> Inl ValueError
           | c # r2 \<Rightarrow>
               if c \<noteq> CHR '':'' then Inl ValueError
               else (case match_M r2 of
                       None \<Rightarrow> Inl ValueError
                     | Some (m, r3) \<Rightarrow>
                         if r3 = [] then Inr (60 * h + m) else Inl ValueError)))"

text \<open>Two-digit, zero-padded decimal of a number below 100.\<close>

definition digit_char :: "int \<Rightarrow> char" where
  "digit_char n = ''0123456789'' ! nat n"

definition pad2 :: "int \<Rightarrow> string" where
  "pad2 n = [digit_char (n div 10), digit_char (n mod 10)]"

text \<open>\<open>t.strftime('%H:%M')\<close>: hour and minute of the instant's time of day.\<close>

definition strftime_HM :: "int \<Rightarrow> string" where
  "strftime_HM t = pad2 (t mod 1440 div 60) @ '':'' @ pad2 (t mod 60)"

text \<open>\<open>t.strftime('%I:%M %p').lower()\<close>: twelve-hour clock with \<open>am\<close> or \<open>pm\<close>.\<close>

definition strftime_IMp_lower :: "int \<Rightarrow> string" where
  "strftime_IMp_lower t =
     (let h = t mod 1440 div 60;
          h12 = (if h mod 12 = 0 then 12 else h mod 12)
      in pad2 h12 @ '':'' @ pad2 (t mod 60) @ '' '' @ (if h < 12 then ''am'' else ''pm''))"

subsection \<open>The slot generator\<close>

text \<open>The dictionary appended to \<open>slots\<close>; the key \<open>end\<close> is the field \<open>end_key\<close>.\<close>

record time_slot =
  start :: string
  end_key :: string
  display_start :: string
  display_end :: string

definition make_slot :: "int \<Rightarrow> int \<Rightarrow> time_slot" where
  "make_slot current_time slot_end =
     \<lparr> start = strftime_HM current_time,
       end_key = strftime_HM slot_end,
       display_start = strftime_IMp_lower current_time,
       display_end = strftime_IMp_lower slot_end \<rparr>"


text \<open>
  The block \<open>if break_start and break_end: ...\<close> of the loop body. The result \<open>Inr (Some t)\<close>
  is the \<open>continue\<close> branch with the cursor moved to \<open>t\<close>, \<open>Inr None\<close> falls through to the rest
  of the body, and \<open>Inl e\<close> is the exception of a break time that does not parse (the break
  times are parsed inside the loop, on every iteration).
\<close>

fun break_skip :: "string option \<Rightarrow> string option \<Rightarrow> int \<Rightarrow> int \<Rightarrow> py_error + int option" where
  "break_skip (Some break_start) (Some break_end) current_time slot_end =
     (if break_start \<noteq> [] \<and> break_end \<noteq> [] then
        (case strptime_HM break_start of
           Inl e \<Rightarrow> Inl e
         | Inr break_start_time \<Rightarrow>
             (case strptime_HM break_end of
                Inl e \<Rightarrow> Inl e
              | Inr break_end_time \<Rightarrow>
                  if current_time \<ge> break_start_time \<and> slot_end \<le> break_end_time
                  then Inr (Some break_end_time) else Inr None))
      else Inr None)"
| "break_skip _ _ current_time slot_end = Inr None"

text \<open>
  The \<open>while current_time < end_time\<close> loop, with the list \<open>slots\<close> as accumulator. For an
  interval that is not positive the loop need not end, hence the option type.
\<close>

partial_function (option) slot_loop ::
  "int \<Rightarrow> int \<Rightarrow> string option \<Rightarrow> string option \<Rightarrow> int \<Rightarrow> time_slot list
     \<Rightarrow> (py_error + time_slot list) option" where
  "slot_loop current_time end_time break_start break_end interval slots =
     (if current_time < end_time then
        (let slot_end = current_time + interval in
         case break_skip break_start break_end current_time slot_end of
           Inl e \<Rightarrow> Some (Inl e)
         | Inr (Some break_end_time) \<Rightarrow>
             slot_loop break_end_time end_time break_start break_end interval slots
         | Inr None \<Rightarrow>
             slot_loop slot_end end_time break_start break_end interval
               (if slot_end \<le> end_time then slots @ [make_slot current_time slot_end] else slots))
      else Some (Inr slots))"

declare slot_loop.simps [code]

definition generate_time_slots ::
  "string \<Rightarrow> string \<Rightarrow> string option \<Rightarrow> string option \<Rightarrow> int
     \<Rightarrow> (py_error + time_slot list) option" where
  "generate_time_slots start_time end_time break_start break_end interval =
     (case strptime_HM start_time of
        Inl e \<Rightarrow> Some (Inl e)
      | Inr current_time \<Rightarrow>
          (case strptime_HM end_time of
             Inl e \<Rightarrow> Some (Inl e)
           | Inr end_time' \<Rightarrow> slot_loop current_time end_time' break_start break_end interval []))"

subsection \<open>Calendar dates and weekday names\<close>

text \<open>
  The directives of \<open>'%Y-%m-%d'\<close>: \<open>%Y\<close> is \<open>\d\d\d\d\<close>, \<open>%m\<close> is \<open>1[0-2]|0[1-9]|[1-9]\<close> and
  \<open>%d\<close> is \<open>3[0-1]|[1-2]\d|0[1-9]|[1-9]| [1-9]\<close>.
\<close>

fun match_Y :: "string \<Rightarrow> (int \<times> string) option" where
  "match_Y (a # b # c # d # rest) =
     (if is_digit a \<and> is_digit b \<and> is_digit c \<and> is_digit d
      then Some (1000 * digit_val a + 100 * digit_val b + 10 * digit_val c + digit_val d, rest)
      else None)"
| "match_Y _ = None"

fun match_m :: "string \<Rightarrow> (int \<times> string) option" where
  "match_m (a # b # rest) =
     (if a = CHR ''1'' \<and> b \<in> set ''012'' then Some (10 + digit_val b, rest)
      else if a = CHR ''0'' \<and> b \<in> set ''123456789'' then Some (digit_val b, rest)
      else if a \<in> set ''123456789'' then Some (digit_val a, b # rest)
      else None)"
| "match_m [a] = (if a \<in> set ''123456789'' then Some (digit_val a, []) else None)"
| "match_m [] = None"

fun match_d :: "string \<Rightarrow> (int \<times> string) option" where
  "match_d (a # b # rest) =
     (if a = CHR ''3'' \<and> b \<in> set ''01'' then Some (30 + digit_val b, rest)
      else if a \<in> set ''12'' \<and> is_digit b then Some (10 * digit_val a + digit_val b, rest)
      else if a = CHR ''0'' \<and> b \<in> set ''123456789'' then Some (digit_val b, rest)
      else if a \<in> set ''123456789'' then Some (digit_val a, b # rest)
      else if a = CHR '' '' \<and> b \<in> set ''123456789'' then Some (digit_val b, rest)
      else None)"
| "match_d [a] = (if a \<in> set ''123456789'' then Some (digit_val a, []) else None)"
| "match_d [] = None"

definition is_leap :: "int \<Rightarrow> bool" where
  "is_leap y = (y mod 4 = 0 \<and> (y mod 100 \<noteq> 0 \<or> y mod 400 = 0))"

definition days_in_month :: "int \<Rightarrow> int \<Rightarrow> int" where
  "days_in_month y m =
     (if m = 2 then (if is_leap y then 29 else 28)
      else if m = 4 \<or> m = 6 \<or> m = 9 \<or> m = 11 then 30 else 31)"

text \<open>
  \<open>datetime.strptime(s, '%Y-%m-%d')\<close>: the calendar date (year, month, day) of the resulting
  midnight, or \<open>ValueError\<close> when the text does not match, input remains, or the date does not
  exist (year 0, day beyond the month's length).
\<close>

definition strptime_Ymd :: "string \<Rightarrow> py_error + (int \<times> int \<times> int)" where
  "strptime_Ymd s =
     (case match_Y s of
        None \<Rightarrow> Inl ValueError
      | Some (y, r1) \<Rightarrow>
          (case r1 of
             [] \<Rightarrow> Inl ValueError
           | c1 # r2 \<Rightarrow>
               if c1 \<noteq> CHR ''-'' then Inl ValueError
               else (case match_m r2 of
                       None \<Rightarrow> Inl ValueError
                     | Some (m, r3) \<Rightarrow>
                         (case r3 of
                            [] \<Rightarrow> Inl ValueError
                          | c2 # r4 \<Rightarrow>
                              if c2 \<noteq> CHR ''-'' then Inl ValueError
                              else (case match_d r4 of
                                      None \<Rightarrow> Inl ValueError
                                    | Some (d, r5) \<Rightarrow>
                                        if r5 \<noteq> [] then Inl ValueError
                                        else if y < 1 \<or> days_in_month y m < d
                                        then Inl ValueError
                                        else Inr (y, m, d))))))"

text \<open>The proleptic Gregorian ordinal of a date (1 is 0001-01-01) and its weekday, Monday = 0.\<close>

definition days_before_year :: "int \<Rightarrow> int" where
  "days_before_year y = (y - 1) * 365 + (y - 1) div 4 - (y - 1) div 100 + (y - 1) div 400"

definition days_before_month :: "int \<Rightarrow> int \<Rightarrow> int" where
  "days_before_month y m =
     [0, 31, 59, 90, 120, 151, 181, 212, 243, 273, 304, 334] ! nat (m - 1)
       + (if 2 < m \<and> is_leap y then 1 else 0)"

definition toordinal :: "int \<times> int \<times> int \<Rightarrow> int" where
  "toordinal dt = (case dt of (y, m, d) \<Rightarrow> days_before_year y + days_before_month y m + d)"

definition weekday :: "int \<times> int \<times> int \<Rightarrow> int" where
  "weekday dt = (toordinal dt + 6) mod 7"

text \<open>\<open>date_obj.strftime('%A')\<close> in the process's default (C) locale.\<close>

definition strftime_A :: "int \<times> int \<times> int \<Rightarrow> string" where
  "strftime_A dt =
     [''Monday'', ''Tuesday'', ''Wednesday'', ''Thursday'', ''Friday'', ''Saturday'', ''Sunday'']
       ! nat (weekday dt)"

subsection \<open>Tables, session and responses\<close>

text \<open>
  Rows of \<open>appointments\<close> and \<open>doctor_slots\<close> with the columns the handlers write or compare
  (\<open>created_at\<close> is filled by the database clock and read by none of them). Column names carry
  the prefix \<open>appt_\<close> or \<open>ds_\<close>. Tables are lists in rowid order. Of \<open>staff\<close> and \<open>patients\<close>
  only the primary keys matter here (foreign keys are enforced: \<open>PRAGMA foreign_keys = ON\<close>),
  of \<open>doctors\<close> the key and the owning hospital. The \<open>_seq\<close> fields are the largest key ever
  given out by \<open>AUTOINCREMENT\<close>.
\<close>

record appointment =
  appt_id :: int
  appt_patient_id :: int
  appt_doctor_id :: int
  appt_date :: string
  appt_time_slot :: string
  appt_status :: string
  appt_notes :: string
  appt_hospital_id :: int

record doctor_slot =
  ds_id :: int
  ds_doctor_id :: int
  ds_day :: string
  ds_start_time :: string
  ds_end_time :: string
  ds_break_start :: "string option"
  ds_break_end :: "string option"
  ds_hospital_id :: int

record doctor =
  doc_id :: int
  doc_hospital_id :: int

record database =
  staff :: "int list"
  doctors :: "doctor list"
  patients :: "int list"
  appointments :: "appointment list"
  appointments_seq :: int
  doctor_slots :: "doctor_slot list"
  doctor_slots_seq :: int

text \<open>
  The login routes store \<open>user_id\<close>, \<open>user_type\<close> and \<open>hospital_id\<close> together, and logout clears
  the session: \<open>None\<close> is a session without \<open>user_id\<close>.
\<close>

record session =
  user_id :: int
  user_type :: string
  hospital_id :: int

datatype http_method = GET | POST

type_synonym form = "string \<Rightarrow> string option"

datatype json = ErrorJson string | SlotsJson "time_slot list" "string list"

text \<open>
  A response is a JSON body with its status code, a redirect to an endpoint, or a rendered
  template (named; its read-only page data is not represented).
\<close>

datatype response = Json json nat | Redirect string | Render string

record outcome =
  response :: response
  flashes :: "(string \<times> string) list"
  db_after :: database

text \<open>\<open>str.strip()\<close>: removes leading and trailing white space.\<close>

definition is_space :: "char \<Rightarrow> bool" where
  "is_space c = ((of_char c :: nat) \<in> {9, 10, 11, 12, 13, 28, 29, 30, 31, 32, 133, 160})"

definition strip :: "string \<Rightarrow> string" where
  "strip s = rev (dropWhile is_space (rev (dropWhile is_space s)))"

text \<open>\<open>request.form.get(k, '').strip()\<close> and the suffix \<open>or None\<close>.\<close>

definition form_get :: "form \<Rightarrow> string \<Rightarrow> string" where
  "form_get f k = strip (case f k of None \<Rightarrow> [] | Some v \<Rightarrow> v)"

definition or_None :: "string \<Rightarrow> string option" where
  "or_None s = (if s = [] then None else Some s)"

text \<open>
  A text parameter stored into a column of INTEGER affinity becomes an integer when it is an
  integer literal. The model converts an optional sign followed by decimal digits, within 64
  bits; every other text stays text and matches no integer key.
\<close>

fun decimal :: "string \<Rightarrow> int \<Rightarrow> int option" where
  "decimal [] acc = Some acc"
| "decimal (c # cs) acc = (if is_digit c then decimal cs (10 * acc + digit_val c) else None)"

definition integer_affinity :: "string \<Rightarrow> int option" where
  "integer_affinity s =
     (let v = (case s of
                 [] \<Rightarrow> None
               | c # cs \<Rightarrow>
                   if c = CHR ''-'' then (if cs = [] then None else map_option uminus (decimal cs 0))
                   else if c = CHR ''+'' then (if cs = [] then None else decimal cs 0)
                   else decimal s 0)
      in case v of
           None \<Rightarrow> None
         | Some n \<Rightarrow> if - (2 ^ 63) \<le> n \<and> n < 2 ^ 63 then Some n else None)"

subsection \<open>The availability resolver\<close>

text \<open>
  The two queries of the resolver: \<open>SELECT * FROM doctor_slots WHERE doctor_id = ? AND day = ?
  AND hospital_id = ?\<close> with \<open>fetchone()\<close>, and \<open>SELECT time_slot FROM appointments WHERE
  doctor_id = ? AND date = ? AND status != 'Cancelled' AND hospital_id = ?\<close> with \<open>fetchall()\<close>.
\<close>

definition select_doctor_slot :: "database \<Rightarrow> int \<Rightarrow> string \<Rightarrow> int \<Rightarrow> doctor_slot option" where
  "select_doctor_slot db doctor_id day hospital =
     find (\<lambda>r. ds_doctor_id r = doctor_id \<and> ds_day r = day \<and> ds_hospital_id r = hospital)
       (doctor_slots db)"

definition select_booked_slots :: "database \<Rightarrow> int \<Rightarrow> string \<Rightarrow> int \<Rightarrow> string list" where
  "select_booked_slots db doctor_id date hospital =
     map appt_time_slot
       (filter (\<lambda>a. appt_doctor_id a = doctor_id \<and> appt_date a = date
                     \<and> appt_status a \<noteq> ''Cancelled'' \<and> appt_hospital_id a = hospital)
          (appointments db))"

text \<open>
  \<open>get_doctor_slots(doctor_id, date)\<close>. The handler only reads the database. It is \<open>None\<close>
  only if the slot generator does not return.
\<close>

definition get_doctor_slots ::
  "session option \<Rightarrow> database \<Rightarrow> int \<Rightarrow> string \<Rightarrow> response option" where
  "get_doctor_slots sess db doctor_id date =
     (case sess of
        None \<Rightarrow> Some (Json (ErrorJson ''Unauthorized'') 401)
      | Some s \<Rightarrow>
          if user_type s \<noteq> ''admin'' then Some (Json (ErrorJson ''Unauthorized'') 401)
          else
            (case strptime_Ymd date of
               Inl e \<Rightarrow> Some (Json (ErrorJson ''Invalid date format'') 400)
             | Inr date_obj \<Rightarrow>
                 (case select_doctor_slot db doctor_id (strftime_A date_obj) (hospital_id s) of
                    None \<Rightarrow> Some (Json (ErrorJson ''Doctor not available on this day'') 200)
                  | Some slot_info \<Rightarrow>
                      (case generate_time_slots (ds_start_time slot_info) (ds_end_time slot_info)
                              (ds_break_start slot_info) (ds_break_end slot_info) 15 of
                         None \<Rightarrow> None
                       | Some (Inl e) \<Rightarrow> Some (Json (ErrorJson ''Server error'') 500)
                       | Some (Inr slots) \<Rightarrow>
                           Some (Json (SlotsJson slots
                                         (select_booked_slots db doctor_id date (hospital_id s)))
                                   200)))))"

subsection \<open>Schedule templates: the write path\<close>

text \<open>
  \<open>set_doctor_slots(doctor_id)\<close>. DELETE and INSERT run in one transaction that is committed
  only if the INSERT passes its foreign keys; otherwise the connection is closed without a
  commit, the table is as before, and the following SELECT on the closed connection raises
  as well.
\<close>

definition set_doctor_slots ::
  "session option \<Rightarrow> database \<Rightarrow> int \<Rightarrow> http_method \<Rightarrow> form \<Rightarrow> outcome" where
  "set_doctor_slots sess db doctor_id method f =
     (case sess of
        None \<Rightarrow> \<lparr> response = Redirect ''login'', flashes = [], db_after = db \<rparr>
      | Some s \<Rightarrow>
          if user_type s \<noteq> ''admin''
          then \<lparr> response = Redirect ''login'', flashes = [], db_after = db \<rparr>
          else if \<not> (\<exists>d \<in> set (doctors db). doc_id d = doctor_id \<and> doc_hospital_id d = hospital_id s)
          then \<lparr> response = Redirect ''view_doctors'',
                 flashes = [(''Doctor not found'', ''danger'')], db_after = db \<rparr>
          else if method = POST then
            (let day = form_get f ''day'';
                 start_time = form_get f ''start_time'';
                 end_time = form_get f ''end_time'';
                 break_start = or_None (form_get f ''break_start'');
                 break_end = or_None (form_get f ''break_end'')
             in if day = [] \<or> start_time = [] \<or> end_time = []
                then \<lparr> response = Redirect ''set_doctor_slots'',
                       flashes = [(''Required fields are missing'', ''danger'')], db_after = db \<rparr>
                else if doctor_id \<in> doc_id ` set (doctors db) \<and> hospital_id s \<in> set (staff db)
                then \<lparr> response = Redirect ''view_doctors'',
                       flashes = [(''Doctor availability slots updated successfully!'', ''success'')],
                       db_after = db
                         \<lparr> doctor_slots :=
                             filter (\<lambda>r. \<not> (ds_doctor_id r = doctor_id \<and> ds_day r = day
                                               \<and> ds_hospital_id r = hospital_id s))
                               (doctor_slots db)
                             @ [\<lparr> ds_id = doctor_slots_seq db + 1, ds_doctor_id = doctor_id,
                                  ds_day = day, ds_start_time = start_time, ds_end_time = end_time,
                                  ds_break_start = break_start, ds_break_end = break_end,
                                  ds_hospital_id = hospital_id s \<rparr>],
                           doctor_slots_seq := doctor_slots_seq db + 1 \<rparr> \<rparr>
                else \<lparr> response = Render ''admin/set_doctor_slots.html'',
                       flashes = [(''Error updating slots'', ''danger''),
                                  (''Error loading doctor data'', ''danger'')],
                       db_after = db \<rparr>)
          else \<lparr> response = Render ''admin/set_doctor_slots.html'', flashes = [], db_after = db \<rparr>)"

subsection \<open>The booking ledger: the write paths\<close>

text \<open>
  \<open>schedule_appointment()\<close>. The INSERT names patient, doctor, date, slot, notes and hospital;
  \<open>status\<close> takes its default \<open>'Scheduled'\<close>. It raises when a foreign key has no parent row.
\<close>

definition schedule_appointment ::
  "session option \<Rightarrow> database \<Rightarrow> http_method \<Rightarrow> form \<Rightarrow> outcome" where
  "schedule_appointment sess db method f =
     (case sess of
        None \<Rightarrow> \<lparr> response = Redirect ''login'', flashes = [], db_after = db \<rparr>
      | Some s \<Rightarrow>
          if user_type s \<noteq> ''admin''
          then \<lparr> response = Redirect ''login'', flashes = [], db_after = db \<rparr>
          else if method = POST then
            (let patient_id = form_get f ''patient_id'';
                 doctor_id = form_get f ''doctor_id'';
                 date = form_get f ''date'';
                 time_slot = form_get f ''time_slot'';
                 notes = form_get f ''notes''
             in if patient_id = [] \<or> doctor_id = [] \<or> date = [] \<or> time_slot = []
                then \<lparr> response = Redirect ''schedule_appointment'',
                       flashes = [(''Required fields are missing'', ''danger'')], db_after = db \<rparr>
                else
                  (case (integer_affinity patient_id, integer_affinity doctor_id) of
                     (Some p, Some d) \<Rightarrow>
                       if p \<in> set (patients db) \<and> d \<in> doc_id ` set (doctors db)
                          \<and> hospital_id s \<in> set (staff db)
                       then \<lparr> response = Redirect ''view_appointments'',
                              flashes = [(''Appointment scheduled successfully!'', ''success'')],
                              db_after = db
                                \<lparr> appointments := appointments db
                                    @ [\<lparr> appt_id = appointments_seq db + 1, appt_patient_id = p,
                                         appt_doctor_id = d, appt_date = date,
                                         appt_time_slot = time_slot, appt_status = ''Scheduled'',
                                         appt_notes = notes, appt_hospital_id = hospital_id s \<rparr>],
                                  appointments_seq := appointments_seq db + 1 \<rparr> \<rparr>
                       else \<lparr> response = Render ''admin/schedule_appointment.html'',
                              flashes = [(''Error scheduling appointment'', ''danger''),
                                         (''Error loading data'', ''danger'')],
                              db_after = db \<rparr>
                   | _ \<Rightarrow> \<lparr> response = Render ''admin/schedule_appointment.html'',
                            flashes = [(''Error scheduling appointment'', ''danger''),
                                       (''Error loading data'', ''danger'')],
                            db_after = db \<rparr>))
          else \<lparr> response = Render ''admin/schedule_appointment.html'', flashes = [],
                 db_after = db \<rparr>)"

text \<open>\<open>delete_appointment(appointment_id)\<close>.\<close>

definition delete_appointment :: "session option \<Rightarrow> database \<Rightarrow> int \<Rightarrow> outcome" where
  "delete_appointment sess db appointment_id =
     (case sess of
        None \<Rightarrow> \<lparr> response = Redirect ''login'', flashes = [], db_after = db \<rparr>
      | Some s \<Rightarrow>
          if user_type s \<noteq> ''admin''
          then \<lparr> response = Redirect ''login'', flashes = [], db_after = db \<rparr>
          else \<lparr> response = Redirect ''view_appointments'',
                 flashes = [(''Appointment deleted successfully!'', ''success'')],
                 db_after = db
                   \<lparr> appointments :=
                       filter (\<lambda>a. \<not> (appt_id a = appointment_id
                                         \<and> appt_hospital_id a = hospital_id s))
                         (appointments db) \<rparr> \<rparr>)"

text \<open>\<open>update_appointment_status(appointment_id)\<close>, a POST-only route of the doctor's side.\<close>

definition update_appointment_status ::
  "session option \<Rightarrow> database \<Rightarrow> int \<Rightarrow> form \<Rightarrow> outcome" where
  "update_appointment_status sess db appointment_id f =
     (case sess of
        None \<Rightarrow> \<lparr> response = Redirect ''login'', flashes = [], db_after = db \<rparr>
      | Some s \<Rightarrow>
          if user_type s \<noteq> ''doctor''
          then \<lparr> response = Redirect ''login'', flashes = [], db_after = db \<rparr>
          else
            (let status = form_get f ''status''
             in if status = []
                then \<lparr> response = Redirect ''doctor_appointments'',
                       flashes = [(''Status is required'', ''danger'')], db_after = db \<rparr>
                else \<lparr> response = Redirect ''doctor_appointments'',
                       flashes = [(''Appointment status updated successfully!'', ''success'')],
                       db_after = db
                         \<lparr> appointments :=
                             map (\<lambda>a. if appt_id a = appointment_id
                                          \<and> appt_doctor_id a = user_id s
                                          \<and> appt_hospital_id a = hospital_id s
                                       then a\<lparr> appt_status := status \<rparr> else a)
                               (appointments db) \<rparr> \<rparr>))"

subsection \<open>Notions used in the statements\<close>

text \<open>
  A slot overlaps the break window when, read back as times, it starts before the break ends
  and ends after the break starts.
\<close>

definition overlaps_break :: "time_slot \<Rightarrow> string \<Rightarrow> string \<Rightarrow> bool" where
  "overlaps_break s break_start break_end =
     (case (strptime_HM (start s), strptime_HM (end_key s),
            strptime_HM break_start, strptime_HM break_end) of
        (Inr a, Inr b, Inr bs, Inr be) \<Rightarrow> a < be \<and> bs < b
      | _ \<Rightarrow> False)"




text \<open>The appointments that do not belong to hospital \<open>h\<close>.\<close>

definition other_tenants :: "int \<Rightarrow> database \<Rightarrow> appointment list" where
  "other_tenants h db = filter (\<lambda>a. appt_hospital_id a \<noteq> h) (appointments db)"

text \<open>
  A small hospital for concrete runs: one staff account (hospital 1), one doctor and one
  patient, the admin's and the doctor's sessions, and three forms.
\<close>

definition example_db :: database where
  "example_db =
     \<lparr> staff = [1], doctors = [\<lparr> doc_id = 1, doc_hospital_id = 1 \<rparr>], patients = [1],
       appointments = [], appointments_seq = 0, doctor_slots = [], doctor_slots_seq = 0 \<rparr>"

definition example_admin :: session where
  "example_admin = \<lparr> user_id = 1, user_type = ''admin'', hospital_id = 1 \<rparr>"

definition example_doctor :: session where
  "example_doctor = \<lparr> user_id = 1, user_type = ''doctor'', hospital_id = 1 \<rparr>"

definition example_booking :: form where
  "example_booking =
     map_of [(''patient_id'', ''1''), (''doctor_id'', ''1''), (''date'', ''2024-01-01''),
             (''time_slot'', ''09:00'')]"

definition example_template :: form where
  "example_template =
     map_of [(''day'', ''Monday''), (''start_time'', ''09:00''), (''end_time'', ''10:00'')]"

definition example_cancel :: form where
  "example_cancel = map_of [(''status'', ''Cancelled'')]"

text \<open>
  The hospital after the Monday template was stored, after the slot 09:00 of Monday
  2024-01-01 was booked once, and after it was booked a second time; and the last of these
  with one more appointment, owned by another hospital.
\<close>

definition example_db_template :: database where
  "example_db_template =
     db_after (set_doctor_slots (Some example_admin) example_db 1 POST example_template)"

definition example_db_booked_once :: database where
  "example_db_booked_once =
     db_after (schedule_appointment (Some example_admin) example_db_template POST
                 example_booking)"

definition example_db_booked_twice :: database where
  "example_db_booked_twice =
     db_after (schedule_appointment (Some example_admin) example_db_booked_once POST
                 example_booking)"

definition example_db_two_tenants :: database where
  "example_db_two_tenants =
     example_db_booked_twice
       \<lparr> appointments := appointments example_db_booked_twice
           @ [\<lparr> appt_id = 3, appt_patient_id = 2, appt_doctor_id = 1,
                appt_date = ''2024-01-01'', appt_time_slot = ''09:15'',
                appt_status = ''Scheduled'', appt_notes = [], appt_hospital_id = 2 \<rparr>] \<rparr>"

section \<open>Properties of the slot generator\<close>

lemmas parse_defs = is_digit_def digit_val_def

lemmas time_defs = strptime_HM_def make_slot_def strftime_HM_def strftime_IMp_lower_def
  pad2_def digit_char_def

subsection \<open>The break check\<close>



lemma break_skip_forward:
  "break_skip bs be c s = Inr (Some t) \<Longrightarrow> s \<le> t"
  by (cases bs; cases be) (auto split: if_splits sum.splits)


subsection \<open>One iteration of the loop\<close>

lemma slot_loop_done:
  "\<not> c < e \<Longrightarrow> slot_loop c e bs be i acc = Some (Inr acc)"
  by (subst slot_loop.simps) (simp add: Let_def)

lemma slot_loop_error:
  "c < e \<Longrightarrow> break_skip bs be c (c + i) = Inl err \<Longrightarrow>
   slot_loop c e bs be i acc = Some (Inl err)"
  by (subst slot_loop.simps) (simp add: Let_def)

lemma slot_loop_skip:
  "c < e \<Longrightarrow> break_skip bs be c (c + i) = Inr (Some t) \<Longrightarrow>
   slot_loop c e bs be i acc = slot_loop t e bs be i acc"
  by (subst slot_loop.simps) (simp add: Let_def)

lemma slot_loop_emit:
  "c < e \<Longrightarrow> break_skip bs be c (c + i) = Inr None \<Longrightarrow> c + i \<le> e \<Longrightarrow>
   slot_loop c e bs be i acc = slot_loop (c + i) e bs be i (acc @ [make_slot c (c + i)])"
  by (subst slot_loop.simps) (simp add: Let_def)

lemma slot_loop_drop:
  "c < e \<Longrightarrow> break_skip bs be c (c + i) = Inr None \<Longrightarrow> \<not> c + i \<le> e \<Longrightarrow>
   slot_loop c e bs be i acc = slot_loop (c + i) e bs be i acc"
  by (subst slot_loop.simps) (simp add: Let_def)

subsection \<open>Closed form without a break\<close>




subsection \<open>Termination for a positive interval\<close>

text \<open>
  Every iteration moves the cursor forward by at least the interval (a skip moves it to the
  end of the break, which is not before the candidate slot's end), so the distance to the end
  time is a measure.
\<close>

lemma slot_loop_terminates:
  assumes "0 < i"
  shows "\<exists>r. slot_loop c e bs be i acc = Some r"
proof (induction "nat (e - c)" arbitrary: c acc rule: less_induct)
  case less
  show ?case
  proof (cases "c < e")
    case False
    then show ?thesis by (simp add: slot_loop_done)
  next
    case True
    show ?thesis
    proof (cases "break_skip bs be c (c + i)")
      case (Inl err)
      with True show ?thesis by (simp add: slot_loop_error)
    next
      case (Inr r)
      show ?thesis
      proof (cases r)
        case None
        have m: "nat (e - (c + i)) < nat (e - c)" using assms True by simp
        show ?thesis
        proof (cases "c + i \<le> e")
          case True
          with less[OF m] \<open>c < e\<close> Inr None show ?thesis
            by (simp add: slot_loop_emit)
        next
          case False
          with less[OF m] \<open>c < e\<close> Inr None show ?thesis
            by (simp add: slot_loop_drop)
        qed
      next
        case (Some t)
        with Inr have "c + i \<le> t" by (simp add: break_skip_forward)
        then have "nat (e - t) < nat (e - c)" using assms True by simp
        from less[OF this] True Inr Some show ?thesis
          by (simp add: slot_loop_skip)
      qed
    qed
  qed
qed



subsection \<open>The claims about the slot generator\<close>

text \<open>
  Claim C1 (no emitted slot overlaps the break window, for a break inside the working hours)
  fails on the code. The break check skips a candidate only when it lies wholly inside the
  break, so a candidate that starts before the break and ends inside it is emitted. For the
  template 09:00 to 12:00 with the break 10:20 to 11:00 (inside the working hours) and the
  interval of 15 minutes the generator returns ten slots, among them 10:15 to 10:30, which
  overlaps the break.
\<close>

theorem straddling_slot_overlaps_break:
  "generate_time_slots ''09:00'' ''12:00'' (Some ''10:20'') (Some ''11:00'') 15 =
     Some (Inr [make_slot 540 555, make_slot 555 570, make_slot 570 585, make_slot 585 600,
                make_slot 600 615, make_slot 615 630, make_slot 660 675, make_slot 675 690,
                make_slot 690 705, make_slot 705 720])
   \<and> start (make_slot 615 630) = ''10:15'' \<and> end_key (make_slot 615 630) = ''10:30''
   \<and> overlaps_break (make_slot 615 630) ''10:20'' ''11:00''"
  by (simp add: generate_time_slots_def slot_loop.simps overlaps_break_def time_defs parse_defs
      Let_def)







section \<open>Properties of the resolver, the templates and the ledger\<close>

lemmas date_defs = strptime_Ymd_def days_in_month_def is_leap_def strftime_A_def weekday_def
  toordinal_def days_before_year_def days_before_month_def
lemmas form_defs = form_get_def strip_def is_space_def or_None_def
lemmas example_defs = example_db_def example_admin_def example_doctor_def example_booking_def
  example_template_def example_cancel_def

subsection \<open>The example hospital, evaluated\<close>

lemma example_db_template_eq:
  "example_db_template =
     \<lparr> staff = [1], doctors = [\<lparr> doc_id = 1, doc_hospital_id = 1 \<rparr>], patients = [1],
       appointments = [], appointments_seq = 0,
       doctor_slots =
         [\<lparr> ds_id = 1, ds_doctor_id = 1, ds_day = ''Monday'', ds_start_time = ''09:00'',
            ds_end_time = ''10:00'', ds_break_start = None, ds_break_end = None,
            ds_hospital_id = 1 \<rparr>],
       doctor_slots_seq = 1 \<rparr>"
  by (simp add: example_db_template_def example_defs set_doctor_slots_def form_defs Let_def)

lemma example_db_booked_once_eq:
  "example_db_booked_once =
     \<lparr> staff = [1], doctors = [\<lparr> doc_id = 1, doc_hospital_id = 1 \<rparr>], patients = [1],
       appointments =
         [\<lparr> appt_id = 1, appt_patient_id = 1, appt_doctor_id = 1, appt_date = ''2024-01-01'',
            appt_time_slot = ''09:00'', appt_status = ''Scheduled'', appt_notes = [],
            appt_hospital_id = 1 \<rparr>],
       appointments_seq = 1,
       doctor_slots =
         [\<lparr> ds_id = 1, ds_doctor_id = 1, ds_day = ''Monday'', ds_start_time = ''09:00'',
            ds_end_time = ''10:00'', ds_break_start = None, ds_break_end = None,
            ds_hospital_id = 1 \<rparr>],
       doctor_slots_seq = 1 \<rparr>"
  by (simp add: example_db_booked_once_def example_db_template_eq example_admin_def
      example_booking_def schedule_appointment_def form_defs integer_affinity_def parse_defs
      Let_def)

lemma example_db_booked_twice_eq:
  "example_db_booked_twice =
     \<lparr> staff = [1], doctors = [\<lparr> doc_id = 1, doc_hospital_id = 1 \<rparr>], patients = [1],
       appointments =
         [\<lparr> appt_id = 1, appt_patient_id = 1, appt_doctor_id = 1, appt_date = ''2024-01-01'',
            appt_time_slot = ''09:00'', appt_status = ''Scheduled'', appt_notes = [],
            appt_hospital_id = 1 \<rparr>,
          \<lparr> appt_id = 2, appt_patient_id = 1, appt_doctor_id = 1, appt_date = ''2024-01-01'',
            appt_time_slot = ''09:00'', appt_status = ''Scheduled'', appt_notes = [],
            appt_hospital_id = 1 \<rparr>],
       appointments_seq = 2,
       doctor_slots =
         [\<lparr> ds_id = 1, ds_doctor_id = 1, ds_day = ''Monday'', ds_start_time = ''09:00'',
            ds_end_time = ''10:00'', ds_break_start = None, ds_break_end = None,
            ds_hospital_id = 1 \<rparr>],
       doctor_slots_seq = 1 \<rparr>"
  by (simp add: example_db_booked_twice_def example_db_booked_once_eq example_admin_def
      example_booking_def schedule_appointment_def form_defs integer_affinity_def parse_defs
      Let_def)


subsection \<open>The resolver always answers\<close>

text \<open>
  The resolver calls the generator with its default interval of 15 minutes, so the generator
  returns and the handler produces a response for every session, database, doctor and date.
\<close>

lemma generate_time_slots_returns:
  "0 < i \<Longrightarrow> \<exists>r. generate_time_slots s e bs be i = Some r"
  using slot_loop_terminates[of i]
  by (auto simp: generate_time_slots_def split: sum.splits)

lemma get_doctor_slots_returns:
  "\<exists>r. get_doctor_slots sess db doctor_id date = Some r"
proof -
  have "\<And>s e bs be. \<exists>r. generate_time_slots s e bs be 15 = Some r"
    by (rule generate_time_slots_returns) simp
  then show ?thesis
    unfolding get_doctor_slots_def
    by (auto split: option.splits sum.splits) (metis option.distinct(1))+
qed

subsection \<open>No template, invalid date\<close>

text \<open>
  Claim C6: when the admin's date parses and the doctor has no template for that date's
  weekday in the admin's hospital, the resolver answers with the message "Doctor not available
  on this day" and status 200, an ordinary response: it is neither a slot list (empty or
  not) nor one of the error responses 400, 401 or 500.
\<close>

theorem no_template_not_available:
  assumes "user_type s = ''admin''"
    and "strptime_Ymd date = Inr date_obj"
    and "\<forall>r \<in> set (doctor_slots db).
           \<not> (ds_doctor_id r = doctor_id \<and> ds_day r = strftime_A date_obj
              \<and> ds_hospital_id r = hospital_id s)"
  shows "get_doctor_slots (Some s) db doctor_id date =
           Some (Json (ErrorJson ''Doctor not available on this day'') 200)"
proof -
  have "select_doctor_slot db doctor_id (strftime_A date_obj) (hospital_id s) = None"
    using assms(3) by (auto simp: select_doctor_slot_def find_None_iff)
  then show ?thesis
    by (simp add: get_doctor_slots_def assms(1,2))
qed

theorem no_template_not_available_witness:
  "strptime_Ymd ''2024-01-03'' = Inr (2024, 1, 3) \<and> strftime_A (2024, 1, 3) = ''Wednesday'' \<and>
   get_doctor_slots (Some example_admin) example_db_booked_twice 1 ''2024-01-03'' =
     Some (Json (ErrorJson ''Doctor not available on this day'') 200)"
proof -
  have a: "user_type example_admin = ''admin''" by (simp add: example_admin_def)
  have b: "strptime_Ymd ''2024-01-03'' = Inr (2024, 1, 3)"
    by (simp add: date_defs parse_defs)
  have w: "strftime_A (2024, 1, 3) = ''Wednesday''"
    by (simp add: date_defs)
  have c: "\<forall>r \<in> set (doctor_slots example_db_booked_twice).
           \<not> (ds_doctor_id r = 1 \<and> ds_day r = strftime_A (2024, 1, 3)
              \<and> ds_hospital_id r = hospital_id example_admin)"
    by (simp add: example_db_booked_twice_eq w)
  from no_template_not_available[OF a b c] b w show ?thesis by simp
qed

subsection \<open>Dates the resolver accepts\<close>









subsection \<open>Schedule templates\<close>











subsection \<open>The booked set\<close>










subsection \<open>Tenant scoping\<close>

lemma schedule_appointment_rows:
  "appointments (db_after (schedule_appointment (Some s) db method f)) = appointments db
   \<or> (\<exists>a. appointments (db_after (schedule_appointment (Some s) db method f))
             = appointments db @ [a]
          \<and> appt_hospital_id a = hospital_id s)"
  by (simp add: schedule_appointment_def Let_def split: option.splits)

lemma schedule_appointment_others:
  "other_tenants (hospital_id s) (db_after (schedule_appointment (Some s) db method f)) =
   other_tenants (hospital_id s) db"
  using schedule_appointment_rows[of s db "method" f]
  by (auto simp: other_tenants_def)

lemma delete_appointment_others:
  "other_tenants (hospital_id s) (db_after (delete_appointment (Some s) db appointment_id)) =
   other_tenants (hospital_id s) db"
  by (auto simp: other_tenants_def delete_appointment_def intro: filter_cong)

lemma filter_others_after_update:
  "filter (\<lambda>a. appt_hospital_id a \<noteq> h)
     (map (\<lambda>a. if appt_id a = i \<and> appt_doctor_id a = u \<and> appt_hospital_id a = h
               then a\<lparr> appt_status := st \<rparr> else a) xs)
   = filter (\<lambda>a. appt_hospital_id a \<noteq> h) xs"
  by (induction xs) auto

lemma update_appointment_status_others:
  "other_tenants (hospital_id s) (db_after (update_appointment_status (Some s) db appointment_id f)) =
   other_tenants (hospital_id s) db"
  by (simp add: other_tenants_def update_appointment_status_def Let_def
      filter_others_after_update)

lemma select_booked_slots_own:
  "select_booked_slots
     (db\<lparr> appointments := filter (\<lambda>a. appt_hospital_id a = h) (appointments db) \<rparr>)
     doctor_id date h = select_booked_slots db doctor_id date h"
proof -
  have "filter (\<lambda>a. appt_doctor_id a = doctor_id \<and> appt_date a = date
                  \<and> appt_status a \<noteq> ''Cancelled'' \<and> appt_hospital_id a = h)
          (filter (\<lambda>a. appt_hospital_id a = h) (appointments db))
        = filter (\<lambda>a. appt_doctor_id a = doctor_id \<and> appt_date a = date
                  \<and> appt_status a \<noteq> ''Cancelled'' \<and> appt_hospital_id a = h)
          (appointments db)"
    by (induction "appointments db") (auto intro: filter_cong)
  then show ?thesis
    by (simp add: select_booked_slots_def)
qed

lemma select_doctor_slot_own:
  "select_doctor_slot (db\<lparr> appointments := rows \<rparr>) doctor_id day h =
   select_doctor_slot db doctor_id day h"
  by (simp add: select_doctor_slot_def)

lemma get_doctor_slots_own:
  "get_doctor_slots (Some s)
     (db\<lparr> appointments := filter (\<lambda>a. appt_hospital_id a = hospital_id s) (appointments db) \<rparr>)
     doctor_id date = get_doctor_slots (Some s) db doctor_id date"
  by (simp add: get_doctor_slots_def select_booked_slots_own select_doctor_slot_own
      cong: sum.case_cong option.case_cong)

text \<open>
  Claim C10: the ledger operations are scoped to the caller's hospital. A booking leaves the
  other hospitals' appointments as they are and adds at most one row, which carries the
  caller's hospital; deleting and updating leave the other hospitals' appointments as they
  are; an availability query gives the same answer when all other hospitals' appointments are
  removed, and every booked slot it lists comes from an appointment of the caller's hospital.
  Without a session nothing is written.
\<close>

theorem ledger_tenant_scoped:
  "other_tenants (hospital_id s) (db_after (schedule_appointment (Some s) db method f)) =
     other_tenants (hospital_id s) db
   \<and> (appointments (db_after (schedule_appointment (Some s) db method f)) = appointments db
      \<or> (\<exists>a. appointments (db_after (schedule_appointment (Some s) db method f))
                = appointments db @ [a]
             \<and> appt_hospital_id a = hospital_id s))
   \<and> other_tenants (hospital_id s) (db_after (delete_appointment (Some s) db appointment_id)) =
     other_tenants (hospital_id s) db
   \<and> other_tenants (hospital_id s)
       (db_after (update_appointment_status (Some s) db appointment_id f)) =
     other_tenants (hospital_id s) db
   \<and> get_doctor_slots (Some s)
       (db\<lparr> appointments :=
              filter (\<lambda>a. appt_hospital_id a = hospital_id s) (appointments db) \<rparr>)
       doctor_id date = get_doctor_slots (Some s) db doctor_id date
   \<and> set (select_booked_slots db doctor_id date (hospital_id s)) \<subseteq>
       appt_time_slot ` {a \<in> set (appointments db). appt_hospital_id a = hospital_id s}
   \<and> db_after (schedule_appointment None db method f) = db
   \<and> db_after (delete_appointment None db appointment_id) = db
   \<and> db_after (update_appointment_status None db appointment_id f) = db"
proof -
  have sub: "set (select_booked_slots db doctor_id date (hospital_id s)) \<subseteq>
       appt_time_slot ` {a \<in> set (appointments db). appt_hospital_id a = hospital_id s}"
    by (auto simp: select_booked_slots_def)
  have n1: "db_after (schedule_appointment None db method f) = db"
    by (simp add: schedule_appointment_def)
  have n2: "db_after (delete_appointment None db appointment_id) = db"
    by (simp add: delete_appointment_def)
  have n3: "db_after (update_appointment_status None db appointment_id f) = db"
    by (simp add: update_appointment_status_def)
  show ?thesis
    using schedule_appointment_others[of s db "method" f]
      schedule_appointment_rows[of s db "method" f]
      delete_appointment_others[of s db appointment_id]
      update_appointment_status_others[of s db appointment_id f]
      get_doctor_slots_own[of s db doctor_id date] sub n1 n2 n3
    by - (intro conjI, assumption+)
qed

lemma example_db_two_tenants_eq:
  "appointments example_db_two_tenants =
     [\<lparr> appt_id = 1, appt_patient_id = 1, appt_doctor_id = 1, appt_date = ''2024-01-01'',
        appt_time_slot = ''09:00'', appt_status = ''Scheduled'', appt_notes = [],
        appt_hospital_id = 1 \<rparr>,
      \<lparr> appt_id = 2, appt_patient_id = 1, appt_doctor_id = 1, appt_date = ''2024-01-01'',
        appt_time_slot = ''09:00'', appt_status = ''Scheduled'', appt_notes = [],
        appt_hospital_id = 1 \<rparr>,
      \<lparr> appt_id = 3, appt_patient_id = 2, appt_doctor_id = 1, appt_date = ''2024-01-01'',
        appt_time_slot = ''09:15'', appt_status = ''Scheduled'', appt_notes = [],
        appt_hospital_id = 2 \<rparr>]"
  by (simp add: example_db_two_tenants_def example_db_booked_twice_eq)

theorem ledger_tenant_scoped_witness:
  "other_tenants 1 example_db_two_tenants =
     [\<lparr> appt_id = 3, appt_patient_id = 2, appt_doctor_id = 1, appt_date = ''2024-01-01'',
        appt_time_slot = ''09:15'', appt_status = ''Scheduled'', appt_notes = [],
        appt_hospital_id = 2 \<rparr>]
   \<and> other_tenants 1 (db_after (delete_appointment (Some example_admin)
                                  example_db_two_tenants 3)) =
       other_tenants 1 example_db_two_tenants
   \<and> other_tenants 1 (db_after (update_appointment_status (Some example_doctor)
                                  example_db_two_tenants 3 example_cancel)) =
       other_tenants 1 example_db_two_tenants
   \<and> other_tenants 1 (db_after (schedule_appointment (Some example_admin)
                                  example_db_two_tenants POST example_booking)) =
       other_tenants 1 example_db_two_tenants
   \<and> select_booked_slots example_db_two_tenants 1 ''2024-01-01'' 1 = [''09:00'', ''09:00'']"
proof -
  have h: "hospital_id example_admin = 1" "hospital_id example_doctor = 1"
    by (simp_all add: example_admin_def example_doctor_def)
  have o: "other_tenants 1 example_db_two_tenants =
     [\<lparr> appt_id = 3, appt_patient_id = 2, appt_doctor_id = 1, appt_date = ''2024-01-01'',
        appt_time_slot = ''09:15'', appt_status = ''Scheduled'', appt_notes = [],
        appt_hospital_id = 2 \<rparr>]"
    by (simp add: other_tenants_def example_db_two_tenants_eq)
  have b: "select_booked_slots example_db_two_tenants 1 ''2024-01-01'' 1 = [''09:00'', ''09:00'']"
    by (simp add: select_booked_slots_def example_db_two_tenants_eq)
  from ledger_tenant_scoped[of example_admin example_db_two_tenants POST example_booking 3]
    ledger_tenant_scoped[of example_doctor example_db_two_tenants POST example_cancel 3] o b
  show ?thesis by (simp add: h)
qed

end
